theory Spec2Isabelle
  imports Main
begin

section \<open>Python values, errors and model instances\<close>

text \<open>
  The values that flow through the descriptors and fields of
  \<^verbatim>\<open>modeltranslation/fields.py\<close>. \<open>PObj c b\<close> is an opaque object of the class named
  \<open>c\<close> whose truth value is \<open>b\<close> (a \<^verbatim>\<open>FieldFile\<close> with no name is falsy, for
  example); \<open>PClass c\<close> is the class object named \<open>c\<close>; \<open>PFunc f\<close> is a function.
  Python 2 compares \<^verbatim>\<open>u''\<close> and \<^verbatim>\<open>''\<close> equal, so one constructor serves both
  string types.
\<close>

datatype pyval =
    PNone
  | PBool bool
  | PInt int
  | PStr string
  | PClass string
  | PFunc string
  | PObj string bool

text \<open>Python's truth test, as used by \<^verbatim>\<open>if getattr(instance, loc_field_name):\<close>.\<close>

fun truthy :: "pyval \<Rightarrow> bool" where
  "truthy PNone = False"
| "truthy (PBool b) = b"
| "truthy (PInt i) = (i \<noteq> 0)"
| "truthy (PStr s) = (s \<noteq> [])"
| "truthy (PClass c) = True"
| "truthy (PFunc f) = True"
| "truthy (PObj c b) = b"

fun callable :: "pyval \<Rightarrow> bool" where
  "callable (PClass c) = True"
| "callable (PFunc f) = True"
| "callable v = False"

text \<open>\<^verbatim>\<open>type(x)\<close>: the class object of a value.\<close>

fun py_type :: "pyval \<Rightarrow> pyval" where
  "py_type PNone = PClass ''NoneType''"
| "py_type (PBool b) = PClass ''bool''"
| "py_type (PInt i) = PClass ''int''"
| "py_type (PStr s) = PClass ''str''"
| "py_type (PClass c) = PClass ''type''"
| "py_type (PFunc f) = PClass ''function''"
| "py_type (PObj c b) = PClass c"

datatype error =
    ValueError string
  | KeyError string
  | AttributeError string
  | TypeError string
  | ImproperlyConfigured string
  | FieldDoesNotExist string

text \<open>
  A model instance is its \<^verbatim>\<open>__dict__\<close>. The shadow fields are ordinary attributes
  of the instance (the model class carries a descriptor only under the original
  field name), so \<^verbatim>\<open>setattr\<close>, \<^verbatim>\<open>getattr\<close> and \<^verbatim>\<open>hasattr\<close> on a shadow
  field name act on the dictionary.
\<close>

type_synonym model_instance = "string \<rightharpoonup> pyval"

definition hasattr :: "model_instance \<Rightarrow> string \<Rightarrow> bool" where
  "hasattr inst k = (inst k \<noteq> None)"

definition getattr :: "model_instance \<Rightarrow> string \<Rightarrow> error + pyval" where
  "getattr inst k = (case inst k of None \<Rightarrow> Inl (AttributeError k) | Some v \<Rightarrow> Inr v)"

definition setattr :: "model_instance \<Rightarrow> string \<Rightarrow> pyval \<Rightarrow> model_instance" where
  "setattr inst k v = inst(k \<mapsto> v)"

text \<open>\<^verbatim>\<open>instance.__dict__[k]\<close>: a missing key raises \<^verbatim>\<open>KeyError\<close>.\<close>

definition dict_get :: "model_instance \<Rightarrow> string \<Rightarrow> error + pyval" where
  "dict_get inst k = (case inst k of None \<Rightarrow> Inl (KeyError k) | Some v \<Rightarrow> Inr v)"

section \<open>Helpers of \<^verbatim>\<open>modeltranslation.utils\<close>\<close>

text \<open>
  Modelled from the spec: \<^verbatim>\<open>modeltranslation.utils.build_localized_fieldname\<close> is
  imported by \<^verbatim>\<open>fields.py\<close> but its module is not among the sources. The spec
  describes the result as a language-suffixed sibling field: the declared field
  "title" becomes the storage columns "title_en" and "title_de".
\<close>

definition build_localized_fieldname :: "string \<Rightarrow> string \<Rightarrow> string" where
  "build_localized_fieldname field_name lang = field_name @ ''_'' @ lang"

section \<open>\<^verbatim>\<open>TranslationFieldDescriptor\<close>\<close>

text \<open>
  The descriptor installed under the original field name. \<open>desc_name\<close>, \<open>desc_val\<close>
  and \<open>fallback_value\<close> are the attributes \<^verbatim>\<open>name\<close>, \<^verbatim>\<open>val\<close> and
  \<^verbatim>\<open>fallback_value\<close> set by \<^verbatim>\<open>__init__\<close>; \<open>fallback_value = PNone\<close> is the
  default \<^verbatim>\<open>fallback_value=None\<close>.
\<close>

record descriptor =
  desc_name :: string
  desc_val :: pyval
  fallback_value :: pyval

text \<open>
  \<^verbatim>\<open>__set__(self, instance, value)\<close>. The argument \<open>lang\<close> is what
  \<^verbatim>\<open>get_language()\<close> returns at the time of the call (ambient state).
\<close>

definition TranslationFieldDescriptor_set ::
  "descriptor \<Rightarrow> string \<Rightarrow> model_instance \<Rightarrow> pyval \<Rightarrow> model_instance" where
  "TranslationFieldDescriptor_set self lang inst v =
     (let loc_field_name = build_localized_fieldname (desc_name self) lang;
          inst1 = setattr inst loc_field_name v
      in inst1(desc_name self \<mapsto> v))"

text \<open>\<^verbatim>\<open>get_default_instance(self, instance)\<close>: \<^verbatim>\<open>instance.__dict__[self.name]\<close>.\<close>

definition get_default_instance :: "descriptor \<Rightarrow> model_instance \<Rightarrow> error + pyval" where
  "get_default_instance self inst = dict_get inst (desc_name self)"

text \<open>
  \<^verbatim>\<open>__get__(self, instance, owner)\<close>. Access through the class passes
  \<^verbatim>\<open>instance = None\<close>, which is the falsy case of \<^verbatim>\<open>if not instance\<close>; a model
  instance itself is always truthy. When the instance has no attribute for the
  active language the method falls off its end and returns \<^verbatim>\<open>None\<close>.
\<close>

definition TranslationFieldDescriptor_get ::
  "descriptor \<Rightarrow> string \<Rightarrow> model_instance option \<Rightarrow> error + pyval" where
  "TranslationFieldDescriptor_get self lang instance =
     (case instance of
        None \<Rightarrow> Inl (ValueError (desc_name self))
      | Some inst \<Rightarrow>
          (let loc_field_name = build_localized_fieldname (desc_name self) lang
           in if hasattr inst loc_field_name then
                (case getattr inst loc_field_name of
                   Inl e \<Rightarrow> Inl e
                 | Inr x \<Rightarrow>
                     if truthy x then getattr inst loc_field_name
                     else if fallback_value self = PNone then get_default_instance self inst
                     else Inr (fallback_value self))
              else Inr PNone))"

section \<open>Fields\<close>

text \<open>
  The classes of the host framework that \<^verbatim>\<open>create_translation_field\<close> tests with
  \<^verbatim>\<open>isinstance\<close>; any other class is \<open>OtherClass\<close> with its name.
\<close>

datatype dj_class = CharField | TextField | FileField | ImageField | OtherClass string

text \<open>
  The instance attributes of a field (its \<^verbatim>\<open>__dict__\<close>) that the translation
  fields read or write. \<open>upload_to\<close>, \<open>storage\<close> and \<open>generate_filename\<close> are
  \<open>None\<close> when the attribute is absent from the dictionary.
\<close>

record field_dict =
  name :: string
  attname :: string
  verbose_name :: string
  null :: bool
  blank :: bool
  max_length :: "nat option"
  upload_to :: "pyval option"
  storage :: "pyval option"
  generate_filename :: "pyval option"

text \<open>The form field a model field produces; \<open>widget\<close> is the widget instance.\<close>

record formfield =
  form_class :: string
  widget :: pyval

text \<open>
  A field of the host framework, as the wrapped (original) field: its attributes,
  its class (\<open>cls_name\<close> is \<^verbatim>\<open>field.__class__.__name__\<close>, \<open>cls_mro\<close> the classes it
  is an instance of) and the methods of that class which the translation fields
  delegate to.
\<close>

record field = field_dict +
  cls_name :: string
  cls_mro :: "dj_class list"
  to_python :: "pyval \<Rightarrow> error + pyval"
  get_prep_value :: "pyval \<Rightarrow> error + pyval"
  get_prep_lookup :: "string \<Rightarrow> pyval \<Rightarrow> error + pyval"
  get_internal_type :: string
  formfield :: "pyval list \<Rightarrow> (string \<rightharpoonup> pyval) \<Rightarrow> error + formfield"

definition isinstance :: "field \<Rightarrow> dj_class list \<Rightarrow> bool" where
  "isinstance f classes = (set (cls_mro f) \<inter> set classes \<noteq> {})"

datatype translation_class = TranslationField | TranslationFileField | TranslationImageField

text \<open>
  A translation field: the attributes copied from the wrapped field by
  \<^verbatim>\<open>self.__dict__.update(translated_field.__dict__)\<close> and then adjusted, the wrapped
  field, the language, and which of the three classes it was built as.
\<close>

record translation_field = field_dict +
  translated_field :: field
  language :: string
  tf_class :: translation_class

text \<open>
  \<^verbatim>\<open>_post_init(self, translated_field, language)\<close>, the same text in
  \<^verbatim>\<open>TranslationField\<close> and \<^verbatim>\<open>TranslationFileField\<close>. \<open>d\<close> is \<^verbatim>\<open>self.__dict__\<close>
  at the call. \<^verbatim>\<open>build_localized_verbose_name\<close> belongs to the absent module
  \<^verbatim>\<open>modeltranslation.utils\<close> and is the parameter \<open>blvn\<close>.
\<close>

definition post_init ::
  "(string \<Rightarrow> string \<Rightarrow> string) \<Rightarrow> translation_class \<Rightarrow> field_dict \<Rightarrow> field \<Rightarrow> string
     \<Rightarrow> translation_field" where
  "post_init blvn c d tf lang =
     field_dict.extend
       (d\<lparr>null := True, blank := True,
          attname := build_localized_fieldname (name tf) lang,
          name := build_localized_fieldname (name tf) lang,
          verbose_name := blvn (verbose_name tf) lang\<rparr>)
       (translation_field.fields tf lang c)"

text \<open>\<^verbatim>\<open>TranslationField.__init__(self, translated_field, language)\<close>.\<close>

definition TranslationField_init ::
  "(string \<Rightarrow> string \<Rightarrow> string) \<Rightarrow> field \<Rightarrow> string \<Rightarrow> translation_field" where
  "TranslationField_init blvn tf lang =
     post_init blvn TranslationField (field_dict.truncate tf) tf lang"

definition default_storage :: pyval where
  "default_storage = PObj ''DefaultStorage'' True"

text \<open>
  \<^verbatim>\<open>TranslationFileField.__init__(self, translated_field, language, **kwargs)\<close>;
  \<open>c\<close> is the class being instantiated (\<^verbatim>\<open>TranslationImageField\<close> inherits the
  constructor). The two refused keywords raise \<^verbatim>\<open>TypeError\<close>, and a wrapped
  field with no \<^verbatim>\<open>upload_to\<close> in its \<^verbatim>\<open>__dict__\<close> raises \<^verbatim>\<open>KeyError\<close>.
\<close>

definition TranslationFileField_init ::
  "(string \<Rightarrow> string \<Rightarrow> string) \<Rightarrow> translation_class \<Rightarrow> field \<Rightarrow> string
     \<Rightarrow> (string \<rightharpoonup> pyval) \<Rightarrow> error + translation_field" where
  "TranslationFileField_init blvn c tf lang kwargs =
     (let d = field_dict.truncate tf in
      if kwargs ''primary_key'' \<noteq> None then Inl (TypeError ''primary_key'')
      else if kwargs ''unique'' \<noteq> None then Inl (TypeError ''unique'')
      else
        (let d = d\<lparr>storage := Some (case kwargs ''storage'' of
                                        None \<Rightarrow> default_storage | Some s \<Rightarrow> s)\<rparr>
         in case upload_to tf of
              None \<Rightarrow> Inl (KeyError ''upload_to'')
            | Some u \<Rightarrow>
                (let d = d\<lparr>upload_to := Some u\<rparr>;
                     d = (if callable u then d\<lparr>generate_filename := Some u\<rparr> else d)
                 in Inr (post_init blvn c d tf lang))))"

section \<open>The translation field factory\<close>

text \<open>
  \<^verbatim>\<open>model._meta.get_field(field_name)\<close>: the model is the list of its fields, and a
  name that matches none raises the framework's \<^verbatim>\<open>FieldDoesNotExist\<close>.
\<close>

definition get_field :: "field list \<Rightarrow> string \<Rightarrow> error + field" where
  "get_field model field_name =
     (case find (\<lambda>f. name f = field_name) model of
        None \<Rightarrow> Inl (FieldDoesNotExist field_name)
      | Some f \<Rightarrow> Inr f)"

text \<open>
  \<^verbatim>\<open>create_translation_field(model, field_name, lang)\<close>. \<open>CUSTOM_FIELDS\<close> comes from
  the absent \<^verbatim>\<open>modeltranslation.settings\<close> and is a parameter. The factory passes
  no keyword arguments to the constructors.
\<close>

definition create_translation_field ::
  "string list \<Rightarrow> (string \<Rightarrow> string \<Rightarrow> string) \<Rightarrow> field list \<Rightarrow> string \<Rightarrow> string
     \<Rightarrow> error + translation_field" where
  "create_translation_field CUSTOM_FIELDS blvn model field_name lang =
     (case get_field model field_name of
        Inl e \<Rightarrow> Inl e
      | Inr fld \<Rightarrow>
          if \<not> (isinstance fld [CharField, TextField, FileField, ImageField]
                \<or> cls_name fld \<in> set CUSTOM_FIELDS)
          then Inl (ImproperlyConfigured (cls_name fld @ '' is not supported by modeltranslation.''))
          else if isinstance fld [ImageField]
          then TranslationFileField_init blvn TranslationImageField fld lang Map.empty
          else if isinstance fld [FileField]
          then TranslationFileField_init blvn TranslationFileField fld lang Map.empty
          else Inr (TranslationField_init blvn fld lang))"

text \<open>
  Modelled from the spec: the code that patches a registered model
  (\<^verbatim>\<open>modeltranslation.translator\<close>) is not among the sources. The spec says that a
  single declared field becomes multiple storage columns, a shadow field being a
  per-language storage column generated from one declared field, and
  \<^verbatim>\<open>models.py\<close> that every registered model is patched to contain additional
  localized versions for every field of its translation options. So the loop
  calls the factory once for each entry of the configured language list, in
  order, and an exception of the factory ends it.
\<close>

fun add_localized_fields ::
  "string list \<Rightarrow> (string \<Rightarrow> string \<Rightarrow> string) \<Rightarrow> field list \<Rightarrow> string \<Rightarrow> string list
     \<Rightarrow> error + translation_field list" where
  "add_localized_fields CUSTOM_FIELDS blvn model field_name [] = Inr []"
| "add_localized_fields CUSTOM_FIELDS blvn model field_name (l # ls) =
     (case create_translation_field CUSTOM_FIELDS blvn model field_name l of
        Inl e \<Rightarrow> Inl e
      | Inr f \<Rightarrow>
          (case add_localized_fields CUSTOM_FIELDS blvn model field_name ls of
             Inl e \<Rightarrow> Inl e
           | Inr fs \<Rightarrow> Inr (f # fs)))"

section \<open>Methods of the translation fields\<close>

text \<open>
  The framework's \<^verbatim>\<open>Field.pre_save(model_instance, add)\<close>, which
  \<^verbatim>\<open>TranslationField.pre_save\<close> reaches through \<^verbatim>\<open>super\<close>: it returns
  \<^verbatim>\<open>getattr(model_instance, self.attname)\<close> and leaves the instance as it is.
\<close>

definition Field_pre_save ::
  "string \<Rightarrow> model_instance \<Rightarrow> bool \<Rightarrow> error + model_instance \<times> pyval" where
  "Field_pre_save att model_instance add =
     (case getattr model_instance att of
        Inl e \<Rightarrow> Inl e
      | Inr v \<Rightarrow> Inr (model_instance, v))"

text \<open>
  \<^verbatim>\<open>pre_save(self, model_instance, add)\<close>, the same text in \<^verbatim>\<open>TranslationField\<close>
  and \<^verbatim>\<open>TranslationFileField\<close>; they differ in the parent's method only, which
  is the parameter \<open>super_pre_save\<close> (it may store into the instance, as the file
  field's does when it commits a file, and it may raise). \<open>DEFAULT_LANGUAGE\<close>
  comes from the absent \<^verbatim>\<open>modeltranslation.settings\<close>. The result is the instance
  after the call and the returned value.
\<close>

definition pre_save ::
  "(model_instance \<Rightarrow> bool \<Rightarrow> error + model_instance \<times> pyval) \<Rightarrow> string \<Rightarrow> translation_field
     \<Rightarrow> model_instance \<Rightarrow> bool \<Rightarrow> error + model_instance \<times> pyval" where
  "pre_save super_pre_save DEFAULT_LANGUAGE self model_instance add =
     (case super_pre_save model_instance add of
        Inl e \<Rightarrow> Inl e
      | Inr (inst, val) \<Rightarrow>
          if DEFAULT_LANGUAGE = language self \<and> \<not> add
          then Inr (inst(attname (translated_field self) \<mapsto> val), val)
          else Inr (inst, val))"



definition TranslationField_get_prep_lookup ::
  "translation_field \<Rightarrow> string \<Rightarrow> pyval \<Rightarrow> error + pyval" where
  "TranslationField_get_prep_lookup self lookup_type v =
     get_prep_lookup (translated_field self) lookup_type v"

definition TranslationField_to_python :: "translation_field \<Rightarrow> pyval \<Rightarrow> error + pyval" where
  "TranslationField_to_python self v = to_python (translated_field self) v"

definition TranslationField_get_internal_type :: "translation_field \<Rightarrow> string" where
  "TranslationField_get_internal_type self = get_internal_type (translated_field self)"

text \<open>
  \<^verbatim>\<open>formfield(self, *args, **kwargs)\<close>. \<open>super_formfield\<close> is the parent class's
  \<^verbatim>\<open>formfield\<close> bound to \<open>self\<close>. \<^verbatim>\<open>defaults.update(kwargs)\<close> is \<open>defaults ++ kwargs\<close>:
  an entry of \<open>kwargs\<close> replaces the default of the same key.
\<close>

definition TranslationField_formfield ::
  "(pyval list \<Rightarrow> (string \<rightharpoonup> pyval) \<Rightarrow> error + formfield) \<Rightarrow> translation_field
     \<Rightarrow> pyval list \<Rightarrow> (string \<rightharpoonup> pyval) \<Rightarrow> error + formfield" where
  "TranslationField_formfield super_formfield self args kwargs =
     (case formfield (translated_field self) args kwargs of
        Inl e \<Rightarrow> Inl e
      | Inr trans_formfield \<Rightarrow>
          (let defaults = [''widget'' \<mapsto> py_type (widget trans_formfield)];
               defaults = defaults ++ kwargs
           in super_formfield args defaults))"

text \<open>
  How the framework's form fields treat the \<^verbatim>\<open>widget\<close> keyword: a widget class
  is instantiated, a widget instance is used as it is, and a falsy value selects
  the form class's own default. \<open>widget_class w\<close> is the class of the widget that
  results from the keyword value \<open>w\<close>; a \<^verbatim>\<open>formfield\<close> implementation
  \<open>honours_widget\<close> when the form field it returns has that widget class whenever
  a truthy \<^verbatim>\<open>widget\<close> keyword is passed.
\<close>

definition widget_class :: "pyval \<Rightarrow> pyval" where
  "widget_class w = (case w of PClass c \<Rightarrow> PClass c | _ \<Rightarrow> py_type w)"

definition honours_widget ::
  "(pyval list \<Rightarrow> (string \<rightharpoonup> pyval) \<Rightarrow> error + formfield) \<Rightarrow> bool" where
  "honours_widget ff =
     (\<forall>args kw w r. kw ''widget'' = Some w \<and> truthy w \<and> ff args kw = Inr r
        \<longrightarrow> py_type (widget r) = widget_class w)"

section \<open>Conditions on the inputs\<close>

text \<open>The test of \<^verbatim>\<open>create_translation_field\<close> that a field class is supported.\<close>

definition supported :: "string list \<Rightarrow> field \<Rightarrow> bool" where
  "supported CUSTOM_FIELDS fld =
     (isinstance fld [CharField, TextField, FileField, ImageField]
      \<or> cls_name fld \<in> set CUSTOM_FIELDS)"

text \<open>
  The framework's \<^verbatim>\<open>FileField.__init__\<close> always stores \<^verbatim>\<open>upload_to\<close>, so every
  instance of \<^verbatim>\<open>FileField\<close> (and of its subclass \<^verbatim>\<open>ImageField\<close>) has the attribute.
\<close>

definition has_upload_to :: "field \<Rightarrow> bool" where
  "has_upload_to fld =
     (if isinstance fld [FileField, ImageField] then upload_to fld \<noteq> None else True)"

text \<open>The caller of \<^verbatim>\<open>formfield\<close> passes no \<^verbatim>\<open>widget\<close> keyword, or a truthy one.\<close>

definition widget_keyword_usable :: "(string \<rightharpoonup> pyval) \<Rightarrow> bool" where
  "widget_keyword_usable kwargs =
     (case kwargs ''widget'' of None \<Rightarrow> True | Some w \<Rightarrow> truthy w)"

section \<open>A concrete model\<close>

text \<open>
  A news model with a text field \<^verbatim>\<open>title\<close>, an image field \<^verbatim>\<open>photo\<close> and an
  integer field \<^verbatim>\<open>count\<close>, used to evaluate the definitions on concrete inputs.
  \<open>example_verbose_name\<close> stands in for \<^verbatim>\<open>build_localized_verbose_name\<close> and
  \<open>example_formfield\<close> for a \<^verbatim>\<open>formfield\<close> of the framework: it builds a form field
  of class \<open>fc\<close> whose widget is the \<^verbatim>\<open>widget\<close> keyword if that is truthy and the
  default \<open>dflt\<close> otherwise, a widget class being instantiated.
\<close>

definition example_verbose_name :: "string \<Rightarrow> string \<Rightarrow> string" where
  "example_verbose_name v lang = v @ '' ['' @ lang @ '']''"

definition instantiate_widget :: "pyval \<Rightarrow> pyval" where
  "instantiate_widget w = (case w of PClass c \<Rightarrow> PObj c True | _ \<Rightarrow> w)"

definition example_formfield ::
  "string \<Rightarrow> pyval \<Rightarrow> pyval list \<Rightarrow> (string \<rightharpoonup> pyval) \<Rightarrow> error + formfield" where
  "example_formfield fc dflt args kw =
     Inr \<lparr>form_class = fc,
          widget = (case kw ''widget'' of
                      None \<Rightarrow> instantiate_widget dflt
                    | Some w \<Rightarrow> if truthy w then instantiate_widget w
                                else instantiate_widget dflt)\<rparr>"

definition title_field :: field where
  "title_field =
     \<lparr>name = ''title'', attname = ''title'', verbose_name = ''Title'',
      null = False, blank = False, max_length = Some 255,
      upload_to = None, storage = None, generate_filename = None,
      cls_name = ''TextField'', cls_mro = [TextField],
      to_python = Inr, get_prep_value = Inr, get_prep_lookup = (\<lambda>lookup_type v. Inr v),
      get_internal_type = ''TextField'',
      formfield = example_formfield ''CharField'' (PClass ''Textarea'')\<rparr>"

definition photo_field :: field where
  "photo_field =
     \<lparr>name = ''photo'', attname = ''photo'', verbose_name = ''Photo'',
      null = False, blank = False, max_length = Some 100,
      upload_to = Some (PStr ''photos''), storage = Some default_storage,
      generate_filename = None,
      cls_name = ''ImageField'', cls_mro = [ImageField, FileField],
      to_python = Inr, get_prep_value = Inr, get_prep_lookup = (\<lambda>lookup_type v. Inr v),
      get_internal_type = ''FileField'',
      formfield = example_formfield ''ImageField'' (PClass ''ClearableFileInput'')\<rparr>"

definition count_field :: field where
  "count_field =
     \<lparr>name = ''count'', attname = ''count'', verbose_name = ''Count'',
      null = False, blank = False, max_length = None,
      upload_to = None, storage = None, generate_filename = None,
      cls_name = ''IntegerField'', cls_mro = [OtherClass ''IntegerField''],
      to_python = Inr, get_prep_value = Inr, get_prep_lookup = (\<lambda>lookup_type v. Inr v),
      get_internal_type = ''IntegerField'',
      formfield = example_formfield ''IntegerField'' (PClass ''TextInput'')\<rparr>"

definition news_model :: "field list" where
  "news_model = [title_field, photo_field, count_field]"

definition title_de :: translation_field where
  "title_de = TranslationField_init example_verbose_name title_field ''de''"

definition title_en :: translation_field where
  "title_en = TranslationField_init example_verbose_name title_field ''en''"

definition title_descriptor :: descriptor where
  "title_descriptor = \<lparr>desc_name = ''title'', desc_val = PStr [], fallback_value = PNone\<rparr>"

definition title_descriptor_fb :: descriptor where
  "title_descriptor_fb =
     \<lparr>desc_name = ''title'', desc_val = PStr [], fallback_value = PStr ''n/a''\<rparr>"

text \<open>
  \<open>news\<close> is an instance whose English title is set; \<open>edited_news\<close> is the same
  instance after \<^verbatim>\<open>title_en\<close> alone was assigned a new value.
\<close>

definition news :: model_instance where
  "news = [''title'' \<mapsto> PStr ''Hello'', ''title_en'' \<mapsto> PStr ''Hello'',
           ''title_de'' \<mapsto> PStr [], ''title_fr'' \<mapsto> PStr []]"

definition edited_news :: model_instance where
  "edited_news = [''title'' \<mapsto> PStr ''Hello'', ''title_en'' \<mapsto> PStr ''Hi'',
                  ''title_de'' \<mapsto> PStr [], ''title_fr'' \<mapsto> PStr []]"

section \<open>Basic facts\<close>

lemma build_localized_fieldname_inj:
  "build_localized_fieldname n l = build_localized_fieldname n l' \<longleftrightarrow> l = l'"
  by (simp add: build_localized_fieldname_def)

lemma build_localized_fieldname_neq_name:
  "build_localized_fieldname n l \<noteq> n"
  by (simp add: build_localized_fieldname_def)

lemma set_dict:
  "TranslationFieldDescriptor_set d lang inst v =
     inst(build_localized_fieldname (desc_name d) lang \<mapsto> v, desc_name d \<mapsto> v)"
  by (simp add: TranslationFieldDescriptor_set_def setattr_def Let_def)

lemma get_present:
  assumes "inst (build_localized_fieldname (desc_name d) lang) = Some x"
  shows "TranslationFieldDescriptor_get d lang (Some inst) =
           (if truthy x then Inr x
            else if fallback_value d = PNone then dict_get inst (desc_name d)
            else Inr (fallback_value d))"
  using assms
  by (simp add: TranslationFieldDescriptor_get_def hasattr_def getattr_def
        get_default_instance_def Let_def)

lemma post_init_sel:
  "name (post_init blvn c d tf lang) = build_localized_fieldname (name tf) lang"
  "attname (post_init blvn c d tf lang) = build_localized_fieldname (name tf) lang"
  "verbose_name (post_init blvn c d tf lang) = blvn (verbose_name tf) lang"
  "null (post_init blvn c d tf lang) = True"
  "blank (post_init blvn c d tf lang) = True"
  "translated_field (post_init blvn c d tf lang) = tf"
  "language (post_init blvn c d tf lang) = lang"
  "tf_class (post_init blvn c d tf lang) = c"
  by (simp_all add: post_init_def field_dict.defs translation_field.defs)

lemma TranslationFileField_init_sel:
  assumes "TranslationFileField_init blvn c tf lang kwargs = Inr r"
  shows "name r = build_localized_fieldname (name tf) lang"
    and "null r" and "blank r" and "language r = lang" and "tf_class r = c"
    and "translated_field r = tf"
  using assms
  by (auto simp: TranslationFileField_init_def Let_def post_init_sel
      split: if_splits option.splits)

lemma TranslationFileField_init_ok:
  assumes "upload_to tf \<noteq> None"
  shows "\<exists>r. TranslationFileField_init blvn c tf lang Map.empty = Inr r"
  using assms by (auto simp: TranslationFileField_init_def Let_def)

lemma get_field_name:
  assumes "get_field model field_name = Inr fld"
  shows "name fld = field_name"
  using assms by (auto simp: get_field_def find_Some_iff split: option.splits)

lemma isinstance_single:
  "isinstance fld [c] \<Longrightarrow> c \<in> set cs \<Longrightarrow> isinstance fld cs"
  by (auto simp: isinstance_def)

text \<open>What the factory returns for a supported field that exists on the model.\<close>

lemma create_translation_field_result:
  assumes "get_field model field_name = Inr fld"
    and "has_upload_to fld"
    and "supported CUSTOM_FIELDS fld"
  shows "\<exists>r. create_translation_field CUSTOM_FIELDS blvn model field_name lang = Inr r
           \<and> translated_field r = fld \<and> language r = lang
           \<and> name r = build_localized_fieldname field_name lang
           \<and> tf_class r = (if isinstance fld [ImageField] then TranslationImageField
                            else if isinstance fld [FileField] then TranslationFileField
                            else TranslationField)"
proof -
  have nm: "name fld = field_name" using assms(1) by (rule get_field_name)
  show ?thesis
  proof (cases "isinstance fld [ImageField] \<or> isinstance fld [FileField]")
    case True
    then have "isinstance fld [FileField, ImageField]"
      by (auto intro: isinstance_single)
    with assms(2) have "upload_to fld \<noteq> None" by (simp add: has_upload_to_def)
    then obtain r1 r2 where
      r: "TranslationFileField_init blvn TranslationImageField fld lang Map.empty = Inr r1"
         "TranslationFileField_init blvn TranslationFileField fld lang Map.empty = Inr r2"
      using TranslationFileField_init_ok by metis
    show ?thesis
      using True assms(1,3) nm r TranslationFileField_init_sel [OF r(1)]
        TranslationFileField_init_sel [OF r(2)]
      by (auto simp: create_translation_field_def supported_def)
  next
    case False
    then show ?thesis
      using assms(1,3) nm
      by (simp add: create_translation_field_def supported_def TranslationField_init_def
            post_init_sel)
  qed
qed

lemma add_localized_fields_result:
  assumes "get_field model field_name = Inr fld"
    and "has_upload_to fld"
    and "supported CUSTOM_FIELDS fld"
  shows "\<exists>fs. add_localized_fields CUSTOM_FIELDS blvn model field_name langs = Inr fs
           \<and> map language fs = langs
           \<and> map name fs = map (build_localized_fieldname field_name) langs
           \<and> map translated_field fs = map (\<lambda>l. fld) langs"
proof (induction langs)
  case Nil
  then show ?case by simp
next
  case (Cons l ls)
  from create_translation_field_result [OF assms, of blvn l] Cons
  show ?case by auto
qed

text \<open>The widget contract, and the widget class that \<^verbatim>\<open>formfield\<close> ends with.\<close>

lemma honours_widgetD:
  assumes "honours_widget ff" and "kw ''widget'' = Some w" and "truthy w"
    and "ff args kw = Inr r"
  shows "py_type (widget r) = widget_class w"
  using assms(1) [unfolded honours_widget_def, rule_format, of kw w args r] assms(2-4)
  by simp

lemma honours_widget_example: "honours_widget (example_formfield fc dflt)"
  by (auto simp: honours_widget_def example_formfield_def instantiate_widget_def
        widget_class_def split: pyval.splits)

lemma py_type_widget_class: "widget_class (py_type w) = py_type w"
  by (cases w) (simp_all add: widget_class_def)

lemma defaults_update_no_widget:
  assumes "kwargs ''widget'' = None"
  shows "[''widget'' \<mapsto> c] ++ kwargs = kwargs(''widget'' \<mapsto> c)"
  using assms by (auto simp: map_add_def fun_eq_iff split: option.splits)

lemma formfield_preserves_widget:
  assumes hw: "honours_widget (formfield (translated_field self))"
    and hs: "honours_widget super_formfield"
    and kw: "widget_keyword_usable kwargs"
    and r: "TranslationField_formfield super_formfield self args kwargs = Inr r"
  shows "\<exists>t. formfield (translated_field self) args kwargs = Inr t
           \<and> py_type (widget r) = py_type (widget t)"
proof -
  from r obtain t where t: "formfield (translated_field self) args kwargs = Inr t"
    and s: "super_formfield args ([''widget'' \<mapsto> py_type (widget t)] ++ kwargs) = Inr r"
    by (auto simp: TranslationField_formfield_def Let_def split: sum.splits)
  show ?thesis
  proof (cases "kwargs ''widget''")
    case None
    then have k: "([''widget'' \<mapsto> py_type (widget t)] ++ kwargs) ''widget''
                    = Some (py_type (widget t))"
      by (simp add: map_add_def)
    have tt: "truthy (py_type (widget t))" by (cases "widget t") simp_all
    have "py_type (widget r) = widget_class (py_type (widget t))"
      by (rule honours_widgetD [OF hs k tt s])
    with t show ?thesis by (simp add: py_type_widget_class)
  next
    case (Some w)
    with kw have tw: "truthy w" by (simp add: widget_keyword_usable_def)
    from Some have k: "([''widget'' \<mapsto> py_type (widget t)] ++ kwargs) ''widget'' = Some w"
      by (simp add: map_add_def)
    have "py_type (widget r) = widget_class w"
      by (rule honours_widgetD [OF hs k tw s])
    moreover have "py_type (widget t) = widget_class w"
      by (rule honours_widgetD [OF hw Some tw t])
    ultimately show ?thesis using t by simp
  qed
qed

text \<open>The concrete model, evaluated.\<close>

lemma title_field_sel:
  "name title_field = ''title''" "attname title_field = ''title''"
  "verbose_name title_field = ''Title''" "upload_to title_field = None"
  "cls_name title_field = ''TextField''" "cls_mro title_field = [TextField]"
  "get_prep_value title_field = Inr"
  "formfield title_field = example_formfield ''CharField'' (PClass ''Textarea'')"
  by (simp_all add: title_field_def)

lemma photo_field_sel:
  "name photo_field = ''photo''" "upload_to photo_field = Some (PStr ''photos'')"
  "cls_name photo_field = ''ImageField''" "cls_mro photo_field = [ImageField, FileField]"
  "null photo_field = False" "blank photo_field = False"
  by (simp_all add: photo_field_def)

lemma count_field_sel:
  "name count_field = ''count''" "upload_to count_field = None"
  "cls_name count_field = ''IntegerField''" "cls_mro count_field = [OtherClass ''IntegerField'']"
  by (simp_all add: count_field_def)

lemma news_model_get_field:
  "get_field news_model ''title'' = Inr title_field"
  "get_field news_model ''photo'' = Inr photo_field"
  "get_field news_model ''count'' = Inr count_field"
  by (simp_all add: get_field_def news_model_def title_field_sel photo_field_sel count_field_sel)

lemma title_en_sel:
  "attname title_en = ''title_en''" "language title_en = ''en''"
  "attname (translated_field title_en) = ''title''"
  by (simp_all add: title_en_def TranslationField_init_def post_init_sel title_field_sel
        build_localized_fieldname_def)

lemma title_de_translated_field: "translated_field title_de = title_field"
  by (simp add: title_de_def TranslationField_init_def post_init_sel)

lemma edited_news_pre_save:
  "Field_pre_save (attname title_en) edited_news add = Inr (edited_news, PStr ''Hi'')"
  by (simp add: Field_pre_save_def getattr_def title_en_sel edited_news_def)

section \<open>The claims\<close>

subsection \<open>C1: what a read falls back to\<close>




subsection \<open>C2: a write goes to the active language's shadow field and to the original slot\<close>

text \<open>
  C2: for every assignment of a value \<open>v\<close> to the original attribute name,
  \<^verbatim>\<open>__set__\<close> stores \<open>v\<close> under the language-suffixed name of the active language
  and under the original name in \<^verbatim>\<open>instance.__dict__\<close>; the instance afterwards
  is the old one with exactly these two entries written.
\<close>

theorem C2_set_redirects:
  "getattr (TranslationFieldDescriptor_set d lang inst v)
       (build_localized_fieldname (desc_name d) lang) = Inr v
   \<and> dict_get (TranslationFieldDescriptor_set d lang inst v) (desc_name d) = Inr v
   \<and> TranslationFieldDescriptor_set d lang inst v
       = (setattr inst (build_localized_fieldname (desc_name d) lang) v)(desc_name d \<mapsto> v)"
  by (simp add: set_dict getattr_def dict_get_def setattr_def
        build_localized_fieldname_neq_name)

theorem C2_set_redirects_witness:
  "getattr (TranslationFieldDescriptor_set title_descriptor ''de'' news (PStr ''Hallo''))
       ''title_de'' = Inr (PStr ''Hallo'')
   \<and> dict_get (TranslationFieldDescriptor_set title_descriptor ''de'' news (PStr ''Hallo''))
       ''title'' = Inr (PStr ''Hallo'')"
  using C2_set_redirects [of title_descriptor "''de''" news "PStr ''Hallo''", THEN conjunct1]
    C2_set_redirects [of title_descriptor "''de''" news "PStr ''Hallo''",
      THEN conjunct2, THEN conjunct1]
  by (simp add: title_descriptor_def build_localized_fieldname_def)

subsection \<open>C3: the default language's shadow field is mirrored when a row is updated\<close>

text \<open>
  The claim C3 says that every save mirrors the default language's value into
  the original column. A save that inserts the row (\<^verbatim>\<open>add\<close> is true) does not:
  \<^verbatim>\<open>pre_save\<close> of the English shadow field, English being the default language,
  returns the new value and leaves the original slot as it was.
\<close>

theorem C3_pre_save_insert_counterexample:
  "language title_en = ''en''
   \<and> pre_save (Field_pre_save (attname title_en)) ''en'' title_en edited_news True
       = Inr (edited_news, PStr ''Hi'')
   \<and> dict_get edited_news (attname (translated_field title_en)) = Inr (PStr ''Hello'')"
proof -
  have "pre_save (Field_pre_save (attname title_en)) ''en'' title_en edited_news True
          = Inr (edited_news, PStr ''Hi'')"
    by (simp add: pre_save_def edited_news_pre_save)
  moreover have "dict_get edited_news (attname (translated_field title_en))
                   = Inr (PStr ''Hello'')"
    by (simp add: title_en_sel dict_get_def edited_news_def)
  ultimately show ?thesis by (simp add: title_en_sel)
qed

text \<open>
  C3, amended: for a shadow field whose language is the default language, a
  save that updates an existing row (\<^verbatim>\<open>add\<close> is false) writes the field's
  pre-save value into \<^verbatim>\<open>model_instance.__dict__\<close> at the wrapped field's
  \<^verbatim>\<open>attname\<close>; a save that inserts the row writes nothing; both return the
  pre-save value unchanged. This holds for \<^verbatim>\<open>TranslationField\<close> and
  \<^verbatim>\<open>TranslationFileField\<close> alike, whatever the parent's \<^verbatim>\<open>pre_save\<close> returned.
\<close>

theorem C3_pre_save_mirrors_on_update:
  assumes "super_pre_save model_instance add = Inr (inst, val)"
    and "language self = DEFAULT_LANGUAGE"
  shows "(\<not> add \<longrightarrow> pre_save super_pre_save DEFAULT_LANGUAGE self model_instance add
                     = Inr (inst(attname (translated_field self) \<mapsto> val), val))
       \<and> (add \<longrightarrow> pre_save super_pre_save DEFAULT_LANGUAGE self model_instance add
                     = Inr (inst, val))"
  using assms by (cases add) (simp_all add: pre_save_def)

theorem C3_pre_save_mirrors_on_update_witness:
  "Field_pre_save (attname title_en) edited_news False = Inr (edited_news, PStr ''Hi'')
   \<and> language title_en = ''en''
   \<and> pre_save (Field_pre_save (attname title_en)) ''en'' title_en edited_news False
       = Inr (edited_news(''title'' \<mapsto> PStr ''Hi''), PStr ''Hi'')"
  using C3_pre_save_mirrors_on_update [of "Field_pre_save (attname title_en)" edited_news False
      edited_news "PStr ''Hi''" title_en "''en''"]
    edited_news_pre_save [of False]
  by (simp add: title_en_sel)

subsection \<open>C4: reading back what was written\<close>

text \<open>
  The claim C4 says that a read after a write returns the written value, for
  every value. With a \<^verbatim>\<open>fallback_value\<close> configured, writing the empty string
  and reading it back under the same language returns the fallback instead.
\<close>

theorem C4_roundtrip_counterexample:
  "TranslationFieldDescriptor_get title_descriptor_fb ''de''
     (Some (TranslationFieldDescriptor_set title_descriptor_fb ''de'' news (PStr [])))
     = Inr (PStr ''n/a'')
   \<and> Inr (PStr ''n/a'') \<noteq> (Inr (PStr []) :: error + pyval)"
  by (simp add: TranslationFieldDescriptor_get_def TranslationFieldDescriptor_set_def
        title_descriptor_fb_def news_def build_localized_fieldname_def hasattr_def getattr_def
        setattr_def get_default_instance_def dict_get_def Let_def)

text \<open>
  C4, amended: for every instance, active language and value \<open>v\<close>, writing \<open>v\<close>
  to the original attribute name and reading it under the same language
  returns \<open>v\<close> when \<open>v\<close> is truthy or no \<^verbatim>\<open>fallback_value\<close> is configured; a
  falsy \<open>v\<close> with a \<^verbatim>\<open>fallback_value\<close> configured reads back as that fallback.
\<close>

theorem C4_roundtrip:
  "TranslationFieldDescriptor_get d lang (Some (TranslationFieldDescriptor_set d lang inst v))
     = Inr (if truthy v \<or> fallback_value d = PNone then v else fallback_value d)"
proof -
  let ?inst = "TranslationFieldDescriptor_set d lang inst v"
  have loc: "?inst (build_localized_fieldname (desc_name d) lang) = Some v"
    by (simp add: set_dict build_localized_fieldname_neq_name)
  have orig: "dict_get ?inst (desc_name d) = Inr v"
    by (simp add: set_dict dict_get_def)
  show ?thesis
    using get_present [of ?inst d lang v] loc orig by simp
qed

theorem C4_roundtrip_witness:
  "TranslationFieldDescriptor_get title_descriptor_fb ''de''
     (Some (TranslationFieldDescriptor_set title_descriptor_fb ''de'' news (PStr ''Hallo'')))
     = Inr (PStr ''Hallo'')
   \<and> TranslationFieldDescriptor_get title_descriptor ''de''
     (Some (TranslationFieldDescriptor_set title_descriptor ''de'' news (PStr [])))
     = Inr (PStr [])"
  using C4_roundtrip [of title_descriptor_fb "''de''" news "PStr ''Hallo''"]
        C4_roundtrip [of title_descriptor "''de''" news "PStr []"]
  by (simp add: title_descriptor_def title_descriptor_fb_def)

subsection \<open>C5: a write leaves the other languages alone\<close>

text \<open>
  C5: an assignment through the original attribute name under the active
  language \<open>lang\<close> changes the instance at the shadow field of \<open>lang\<close> and at the
  original field's slot only: every other entry keeps its value, and so does
  the shadow field of every other language.
\<close>

theorem C5_set_frame:
  "(\<forall>k. k \<noteq> build_localized_fieldname (desc_name d) lang \<and> k \<noteq> desc_name d
        \<longrightarrow> TranslationFieldDescriptor_set d lang inst v k = inst k)
   \<and> (\<forall>l. l \<noteq> lang
        \<longrightarrow> TranslationFieldDescriptor_set d lang inst v (build_localized_fieldname (desc_name d) l)
            = inst (build_localized_fieldname (desc_name d) l))"
  by (simp add: set_dict build_localized_fieldname_inj build_localized_fieldname_neq_name)

theorem C5_set_frame_witness:
  "''en'' \<noteq> ''de''
   \<and> TranslationFieldDescriptor_set title_descriptor ''de'' news (PStr ''Hallo'')
        (build_localized_fieldname (desc_name title_descriptor) ''en'') = Some (PStr ''Hello'')
   \<and> TranslationFieldDescriptor_set title_descriptor ''de'' news (PStr ''Hallo'')
        (build_localized_fieldname (desc_name title_descriptor) ''de'') = Some (PStr ''Hallo'')"
proof -
  have ne: "''en'' \<noteq> ''de''" by simp
  have "TranslationFieldDescriptor_set title_descriptor ''de'' news (PStr ''Hallo'')
          (build_localized_fieldname (desc_name title_descriptor) ''en'')
        = news (build_localized_fieldname (desc_name title_descriptor) ''en'')"
    by (rule C5_set_frame [THEN conjunct2, THEN spec, THEN mp, OF ne])
  then show ?thesis
    by (simp add: news_def title_descriptor_def build_localized_fieldname_def set_dict)
qed

subsection \<open>C6: the wrapped field under a language-suffixed name\<close>

text \<open>
  C6: for every wrapped field and language, the constructed \<^verbatim>\<open>TranslationField\<close>
  has \<^verbatim>\<open>name\<close> and \<^verbatim>\<open>attname\<close> equal to \<^verbatim>\<open>build_localized_fieldname\<close> of the
  wrapped field's name and the language, and its verbose name is
  \<^verbatim>\<open>build_localized_verbose_name\<close> of the wrapped field's verbose name and the
  language; \<^verbatim>\<open>to_python\<close>, \<^verbatim>\<open>get_prep_lookup\<close> and \<^verbatim>\<open>get_internal_type\<close> return
  what the wrapped field's methods return. For \<^verbatim>\<open>formfield\<close>: when the caller
  passes no \<^verbatim>\<open>widget\<close> keyword, the parent's \<^verbatim>\<open>formfield\<close> is called with the
  keyword set to the class of the wrapped form field's widget; and when both
  \<^verbatim>\<open>formfield\<close> implementations build their form field from the \<^verbatim>\<open>widget\<close>
  keyword, as the framework's do, the form field returned has the widget class
  of the wrapped field's form field.
\<close>

theorem C6_wrapped_under_localized_name:
  "name (TranslationField_init blvn tf lang) = build_localized_fieldname (name tf) lang
   \<and> attname (TranslationField_init blvn tf lang) = build_localized_fieldname (name tf) lang
   \<and> verbose_name (TranslationField_init blvn tf lang) = blvn (verbose_name tf) lang
   \<and> TranslationField_to_python (TranslationField_init blvn tf lang) v = to_python tf v
   \<and> TranslationField_get_prep_lookup (TranslationField_init blvn tf lang) lookup_type v
       = get_prep_lookup tf lookup_type v
   \<and> TranslationField_get_internal_type (TranslationField_init blvn tf lang)
       = get_internal_type tf
   \<and> (kwargs ''widget'' = None \<and> formfield tf args kwargs = Inr t
       \<longrightarrow> TranslationField_formfield super_formfield (TranslationField_init blvn tf lang)
              args kwargs
            = super_formfield args (kwargs(''widget'' \<mapsto> py_type (widget t))))
   \<and> (honours_widget (formfield tf) \<and> honours_widget super_formfield
        \<and> widget_keyword_usable kwargs
        \<and> TranslationField_formfield super_formfield (TranslationField_init blvn tf lang)
              args kwargs = Inr r
       \<longrightarrow> (\<exists>t. formfield tf args kwargs = Inr t \<and> py_type (widget r) = py_type (widget t)))"
proof -
  have tf: "translated_field (TranslationField_init blvn tf lang) = tf"
    by (simp add: TranslationField_init_def post_init_sel)
  have direct: "kwargs ''widget'' = None \<and> formfield tf args kwargs = Inr t
       \<longrightarrow> TranslationField_formfield super_formfield (TranslationField_init blvn tf lang)
              args kwargs
            = super_formfield args (kwargs(''widget'' \<mapsto> py_type (widget t)))"
    by (simp add: TranslationField_formfield_def tf Let_def defaults_update_no_widget)
  have preserved: "honours_widget (formfield tf) \<and> honours_widget super_formfield
        \<and> widget_keyword_usable kwargs
        \<and> TranslationField_formfield super_formfield (TranslationField_init blvn tf lang)
              args kwargs = Inr r
       \<longrightarrow> (\<exists>t. formfield tf args kwargs = Inr t \<and> py_type (widget r) = py_type (widget t))"
    using formfield_preserves_widget [of "TranslationField_init blvn tf lang" super_formfield
        kwargs args r] tf by simp
  have attrs: "name (TranslationField_init blvn tf lang) = build_localized_fieldname (name tf) lang
     \<and> attname (TranslationField_init blvn tf lang) = build_localized_fieldname (name tf) lang
     \<and> verbose_name (TranslationField_init blvn tf lang) = blvn (verbose_name tf) lang"
    by (simp add: TranslationField_init_def post_init_sel)
  have methods: "TranslationField_to_python (TranslationField_init blvn tf lang) v = to_python tf v
     \<and> TranslationField_get_prep_lookup (TranslationField_init blvn tf lang) lookup_type v
         = get_prep_lookup tf lookup_type v
     \<and> TranslationField_get_internal_type (TranslationField_init blvn tf lang)
         = get_internal_type tf"
    by (simp add: tf TranslationField_to_python_def TranslationField_get_prep_lookup_def
          TranslationField_get_internal_type_def)
  from attrs methods direct preserved show ?thesis by blast
qed

theorem C6_wrapped_under_localized_name_witness:
  "name title_de = ''title_de'' \<and> attname title_de = ''title_de''
   \<and> verbose_name title_de = ''Title [de]''
   \<and> honours_widget (formfield title_field)
   \<and> honours_widget (example_formfield ''CharField'' (PClass ''TextInput''))
   \<and> widget_keyword_usable Map.empty
   \<and> (\<exists>r. TranslationField_formfield (example_formfield ''CharField'' (PClass ''TextInput''))
             title_de [] Map.empty = Inr r
          \<and> py_type (widget r) = PClass ''Textarea'')"
proof -
  let ?sup = "example_formfield ''CharField'' (PClass ''TextInput'')"
  have hw: "honours_widget (formfield title_field)"
    by (simp add: title_field_sel honours_widget_example)
  have hs: "honours_widget ?sup" by (rule honours_widget_example)
  have kw: "widget_keyword_usable Map.empty" by (simp add: widget_keyword_usable_def)
  obtain r where r: "TranslationField_formfield ?sup title_de [] Map.empty = Inr r"
    by (simp add: TranslationField_formfield_def title_de_translated_field title_field_sel
          example_formfield_def)
  note C6 = C6_wrapped_under_localized_name [of example_verbose_name title_field "''de''"
      _ _ Map.empty "[]" _ ?sup r, folded title_de_def]
  from C6 hw hs kw r obtain t where
    t: "formfield title_field [] Map.empty = Inr t" "py_type (widget r) = py_type (widget t)"
    by blast
  from t(1) have "py_type (widget t) = PClass ''Textarea''"
    by (auto simp: title_field_sel example_formfield_def instantiate_widget_def)
  with t(2) r have 2: "\<exists>r. TranslationField_formfield ?sup title_de [] Map.empty = Inr r
          \<and> py_type (widget r) = PClass ''Textarea''"
    by auto
  from C6 have "name title_de = ''title_de'' \<and> attname title_de = ''title_de''
      \<and> verbose_name title_de = ''Title [de]''"
    by (simp add: title_field_sel build_localized_fieldname_def example_verbose_name_def)
  with hw hs kw 2 show ?thesis by blast
qed

subsection \<open>C7: one shadow field for each language\<close>

text \<open>
  C7: for a field registered for translation (one that exists on the model and
  that the factory supports) each entry of the configured language list yields
  one shadow field generated from that field: the patching loop returns as many
  translation fields as there are languages, the field at each position wraps
  the declared field, carries the language at that position and is named by
  \<^verbatim>\<open>build_localized_fieldname\<close> of the field name and that language; when the
  list names no language twice, exactly one of the generated fields belongs to
  each language.
\<close>

theorem C7_one_shadow_field_per_language:
  assumes "get_field model field_name = Inr fld"
    and "has_upload_to fld"
    and "supported CUSTOM_FIELDS fld"
  shows "\<exists>fs. add_localized_fields CUSTOM_FIELDS blvn model field_name langs = Inr fs
           \<and> length fs = length langs
           \<and> map language fs = langs
           \<and> map name fs = map (build_localized_fieldname field_name) langs
           \<and> map translated_field fs = map (\<lambda>l. fld) langs
           \<and> (distinct langs \<longrightarrow> (\<forall>l \<in> set langs. \<exists>!f. f \<in> set fs \<and> language f = l))"
proof -
  from add_localized_fields_result [OF assms, of blvn langs]
  obtain fs where fs: "add_localized_fields CUSTOM_FIELDS blvn model field_name langs = Inr fs"
    "map language fs = langs"
    "map name fs = map (build_localized_fieldname field_name) langs"
    "map translated_field fs = map (\<lambda>l. fld) langs"
    by blast
  have len: "length fs = length langs" using fs(2) by (metis length_map)
  have uniq: "\<exists>!f. f \<in> set fs \<and> language f = l"
    if d: "distinct langs" and l: "l \<in> set langs" for l
  proof -
    from d fs(2) have "distinct (map language fs)" by simp
    then have inj: "inj_on language (set fs)" by (simp add: distinct_map)
    from l fs(2) have "l \<in> language ` set fs" by (metis set_map)
    then obtain f where "f \<in> set fs" "language f = l" by auto
    with inj show ?thesis by (auto dest: inj_onD)
  qed
  from fs len uniq show ?thesis by blast
qed

theorem C7_one_shadow_field_per_language_witness:
  "get_field news_model ''title'' = Inr title_field \<and> has_upload_to title_field
   \<and> supported [] title_field \<and> distinct [''en'', ''de'']
   \<and> (\<exists>fs. add_localized_fields [] example_verbose_name news_model ''title'' [''en'', ''de'']
               = Inr fs
          \<and> map name fs = [''title_en'', ''title_de''])"
proof -
  have t: "get_field news_model ''title'' = Inr title_field" by (rule news_model_get_field)
  have tu: "has_upload_to title_field"
    by (simp add: has_upload_to_def isinstance_def title_field_sel)
  have ts: "supported [] title_field" by (simp add: supported_def isinstance_def title_field_sel)
  have d: "distinct [''en'', ''de'']" by simp
  from C7_one_shadow_field_per_language [OF t tu ts, of example_verbose_name "[''en'', ''de'']"]
  obtain fs where
    "add_localized_fields [] example_verbose_name news_model ''title'' [''en'', ''de''] = Inr fs"
    "map name fs = map (build_localized_fieldname ''title'') [''en'', ''de'']"
    by blast
  then have "add_localized_fields [] example_verbose_name news_model ''title'' [''en'', ''de'']
               = Inr fs \<and> map name fs = [''title_en'', ''title_de'']"
    by (simp add: build_localized_fieldname_def)
  then have "\<exists>fs. add_localized_fields [] example_verbose_name news_model ''title''
                  [''en'', ''de''] = Inr fs
               \<and> map name fs = [''title_en'', ''title_de'']"
    by (intro exI [of _ fs])
  with t tu ts d show ?thesis by simp
qed

subsection \<open>C8: translations are optional\<close>

text \<open>
  C8: every \<^verbatim>\<open>TranslationField\<close> and every \<^verbatim>\<open>TranslationFileField\<close> (and
  \<^verbatim>\<open>TranslationImageField\<close>) that is constructed, directly or by the factory,
  has \<^verbatim>\<open>null = True\<close> and \<^verbatim>\<open>blank = True\<close>, whatever the wrapped field's
  settings are.
\<close>

theorem C8_translations_optional:
  "null (TranslationField_init blvn tf lang) \<and> blank (TranslationField_init blvn tf lang)
   \<and> (\<forall>c kwargs r. TranslationFileField_init blvn c tf lang kwargs = Inr r
         \<longrightarrow> null r \<and> blank r)
   \<and> (\<forall>custom model field_name r.
         create_translation_field custom blvn model field_name lang = Inr r
         \<longrightarrow> null r \<and> blank r)"
  by (auto simp: TranslationField_init_def post_init_sel create_translation_field_def
      dest: TranslationFileField_init_sel(2,3) split: sum.splits if_splits)

theorem C8_translations_optional_witness:
  "\<not> null photo_field \<and> \<not> blank photo_field
   \<and> (\<exists>r. TranslationFileField_init example_verbose_name TranslationImageField photo_field ''de''
               Map.empty = Inr r \<and> null r \<and> blank r)"
proof -
  have "upload_to photo_field \<noteq> None" by (simp add: photo_field_sel)
  from TranslationFileField_init_ok [OF this]
  obtain r where r: "TranslationFileField_init example_verbose_name TranslationImageField
                       photo_field ''de'' Map.empty = Inr r"
    by blast
  have "null r \<and> blank r"
    using C8_translations_optional [of example_verbose_name photo_field "''de''"] r by blast
  with r show ?thesis by (auto simp: photo_field_sel)
qed

subsection \<open>C9: which fields the factory refuses, and what it builds\<close>

text \<open>
  C9: for a field that exists on the model, \<^verbatim>\<open>create_translation_field\<close> raises
  \<^verbatim>\<open>ImproperlyConfigured\<close> if and only if the field is neither an instance of
  \<^verbatim>\<open>CharField\<close>, \<^verbatim>\<open>TextField\<close>, \<^verbatim>\<open>FileField\<close> or \<^verbatim>\<open>ImageField\<close> nor has its
  class name in \<^verbatim>\<open>CUSTOM_FIELDS\<close>; otherwise it returns a
  \<^verbatim>\<open>TranslationImageField\<close> for an \<^verbatim>\<open>ImageField\<close> instance, a
  \<^verbatim>\<open>TranslationFileField\<close> for another \<^verbatim>\<open>FileField\<close> instance and a
  \<^verbatim>\<open>TranslationField\<close> for every remaining supported field, wrapping the field
  for the given language.
\<close>

theorem C9_factory_errors_and_dispatch:
  assumes "get_field model field_name = Inr fld"
    and "has_upload_to fld"
  shows "((\<exists>msg. create_translation_field CUSTOM_FIELDS blvn model field_name lang
                  = Inl (ImproperlyConfigured msg))
          \<longleftrightarrow> \<not> (isinstance fld [CharField, TextField, FileField, ImageField]
                   \<or> cls_name fld \<in> set CUSTOM_FIELDS))
       \<and> ((isinstance fld [CharField, TextField, FileField, ImageField]
             \<or> cls_name fld \<in> set CUSTOM_FIELDS)
            \<longrightarrow> (\<exists>r. create_translation_field CUSTOM_FIELDS blvn model field_name lang = Inr r
                    \<and> translated_field r = fld \<and> language r = lang
                    \<and> tf_class r = (if isinstance fld [ImageField] then TranslationImageField
                                     else if isinstance fld [FileField] then TranslationFileField
                                     else TranslationField)))"
proof (cases "supported CUSTOM_FIELDS fld")
  case True
  from create_translation_field_result [OF assms True, of blvn lang]
  show ?thesis using True by (auto simp: supported_def)
next
  case False
  then show ?thesis
    using assms(1) by (simp add: create_translation_field_def supported_def)
qed

theorem C9_factory_errors_and_dispatch_witness:
  "get_field news_model ''photo'' = Inr photo_field \<and> has_upload_to photo_field
   \<and> (\<exists>r. create_translation_field [] example_verbose_name news_model ''photo'' ''de'' = Inr r
          \<and> tf_class r = TranslationImageField)
   \<and> get_field news_model ''count'' = Inr count_field \<and> has_upload_to count_field
   \<and> (\<exists>msg. create_translation_field [] example_verbose_name news_model ''count'' ''de''
          = Inl (ImproperlyConfigured msg))"
proof -
  have p: "get_field news_model ''photo'' = Inr photo_field" by (rule news_model_get_field)
  have pu: "has_upload_to photo_field" by (simp add: has_upload_to_def photo_field_sel)
  have pi: "isinstance photo_field [ImageField]" by (simp add: isinstance_def photo_field_sel)
  have ps: "isinstance photo_field [CharField, TextField, FileField, ImageField]"
    by (simp add: isinstance_def photo_field_sel)
  have c: "get_field news_model ''count'' = Inr count_field" by (rule news_model_get_field)
  have cu: "has_upload_to count_field"
    by (simp add: has_upload_to_def isinstance_def count_field_sel)
  have cs: "\<not> (isinstance count_field [CharField, TextField, FileField, ImageField]
               \<or> cls_name count_field \<in> set [])"
    by (simp add: isinstance_def count_field_sel)
  from C9_factory_errors_and_dispatch [OF p pu, of "[]" example_verbose_name "''de''"] ps pi
  have 1: "\<exists>r. create_translation_field [] example_verbose_name news_model ''photo'' ''de'' = Inr r
          \<and> tf_class r = TranslationImageField"
    by auto
  from C9_factory_errors_and_dispatch [OF c cu, of "[]" example_verbose_name "''de''"] cs
  have 2: "\<exists>msg. create_translation_field [] example_verbose_name news_model ''count'' ''de''
          = Inl (ImproperlyConfigured msg)"
    by blast
  from p pu c cu 1 2 show ?thesis by blast
qed

subsection \<open>C10: the empty string is stored as NULL\<close>



end
